theory Spec2Isabelle
  imports Complex_Main "HOL-Library.Word"
begin

unbundle bit_operations_syntax

section \<open>Constants of FLAMESEMUV0.cpp\<close>

text \<open>
  The sizes and register addresses are \<open>const uint32_t\<close> in the source (lines 11-17), so
  they are 32-bit words here and all address arithmetic wraps as it does in C++.
\<close>

definition MEM1_SIZE :: "32 word" where
  "MEM1_SIZE = 24 * 1024 * 1024"

definition MEM2_SIZE :: "32 word" where
  "MEM2_SIZE = 64 * 1024 * 1024"

definition REG_VIDEO_BG_COLOR :: "32 word" where
  "REG_VIDEO_BG_COLOR = 0x0D000000"

definition REG_INPUT_STATE :: "32 word" where
  "REG_INPUT_STATE = 0x0D000004"

definition REG_AUDIO_FREQ :: "32 word" where
  "REG_AUDIO_FREQ = 0x0D000008"

section \<open>The peripheral classes, as far as class Memory calls them\<close>

text \<open>
  Of class Video only \<open>bgColor\<close> is touched by \<open>setBackgroundColor\<close>, of class Audio only
  \<open>frequency\<close> by \<open>setToneFrequency\<close>, and class Input has the single field
  \<open>buttonState\<close>. The SDL handles (renderer, window, deviceId) and the oscillator phase
  are never reached from \<open>Memory::read32\<close> or \<open>Memory::write32\<close>. The audio frequency is a
  \<open>double\<close>; the conversion \<open>(double)value\<close> of a \<open>uint32_t\<close> is exact, so it is the real
  number \<open>unat value\<close>.
\<close>

record Video =
  bgColor :: "32 word"

record Audio =
  frequency :: real

record Input =
  buttonState :: "32 word"

definition setBackgroundColor :: "32 word \<Rightarrow> Video \<Rightarrow> Video" where
  "setBackgroundColor color v = v\<lparr>bgColor := color\<rparr>"

definition setToneFrequency :: "real \<Rightarrow> Audio \<Rightarrow> Audio" where
  "setToneFrequency freq a = a\<lparr>frequency := freq\<rparr>"

definition getButtonState :: "Input \<Rightarrow> 32 word" where
  "getButtonState i = buttonState i"

section \<open>class Memory and the objects it points to\<close>

text \<open>
  A pointer \<open>Video*\<close>, \<open>Audio*\<close> or \<open>Input*\<close> is \<open>None\<close> for \<open>nullptr\<close> and \<open>Some p\<close> for
  the object stored at \<open>p\<close>. The two byte vectors are lists of 8-bit words.
\<close>

record Memory =
  mem1 :: "8 word list"
  mem2 :: "8 word list"
  video :: "nat option"
  audio :: "nat option"
  input :: "nat option"
  videoBgColor :: "32 word"
  audioFreqValue :: "32 word"

text \<open>
  Everything that happens outside the Memory object is an event: a diagnostic printed
  with \<open>SDL_Log\<close> (format string and arguments) or a call of a peripheral's method
  through one of the three pointers.
\<close>

datatype event =
    SDL_Log string "32 word list"
  | Call_setBackgroundColor nat "32 word"
  | Call_setToneFrequency nat real
  | Call_getButtonState nat

text \<open>
  The state a call of \<open>read32\<close> or \<open>write32\<close> can see or change: the Memory object,
  the peripheral objects (owned by the caller) and the events so far, oldest first.
\<close>

record World =
  memory :: Memory
  videos :: "nat \<Rightarrow> Video"
  audios :: "nat \<Rightarrow> Audio"
  inputs :: "nat \<Rightarrow> Input"
  trace :: "event list"

definition emit :: "event \<Rightarrow> World \<Rightarrow> World" where
  "emit e w = w\<lparr>trace := trace w @ [e]\<rparr>"

text \<open>The constructor \<open>Memory()\<close>, lines 26-38.\<close>

definition Memory_new :: Memory where
  "Memory_new =
     \<lparr>mem1 = replicate (unat MEM1_SIZE) 0,
      mem2 = replicate (unat MEM2_SIZE) 0,
      video = None, audio = None, input = None,
      videoBgColor = 0x00000000, audioFreqValue = 0\<rparr>"

definition connectVideo :: "nat option \<Rightarrow> Memory \<Rightarrow> Memory" where
  "connectVideo v m = m\<lparr>video := v\<rparr>"

definition connectAudio :: "nat option \<Rightarrow> Memory \<Rightarrow> Memory" where
  "connectAudio a m = m\<lparr>audio := a\<rparr>"

definition connectInput :: "nat option \<Rightarrow> Memory \<Rightarrow> Memory" where
  "connectInput i m = m\<lparr>input := i\<rparr>"

subsection \<open>Address windows\<close>

text \<open>
  The window tests of lines 48-49 and 91-92 (MEM1) and of lines 62-63 and 104-105
  (MEM2), which \<open>read32\<close> and \<open>write32\<close> spell out identically.
\<close>

definition in_MEM1 :: "32 word \<Rightarrow> bool" where
  "in_MEM1 address \<longleftrightarrow>
     (address \<ge> 0x80000000 \<and> address < 0x80000000 + MEM1_SIZE) \<or>
     (address \<ge> 0xC0000000 \<and> address < 0xC0000000 + MEM1_SIZE)"

definition in_MEM2 :: "32 word \<Rightarrow> bool" where
  "in_MEM2 address \<longleftrightarrow>
     (address \<ge> 0x90000000 \<and> address < 0x90000000 + MEM2_SIZE) \<or>
     (address \<ge> 0xD0000000 \<and> address < 0xD0000000 + MEM2_SIZE)"

subsection \<open>Big-endian access to a byte vector\<close>

text \<open>
  Lines 54-58 and 67-71: four bytes are widened to \<open>uint32_t\<close>, shifted and or-ed.
\<close>

definition load32 :: "8 word list \<Rightarrow> 32 word \<Rightarrow> 32 word" where
  "load32 mem offset =
     (let b0 = (ucast (mem ! unat offset) :: 32 word);
          b1 = (ucast (mem ! unat (offset + 1)) :: 32 word);
          b2 = (ucast (mem ! unat (offset + 2)) :: 32 word);
          b3 = (ucast (mem ! unat (offset + 3)) :: 32 word)
      in push_bit 24 b0 OR push_bit 16 b1 OR push_bit 8 b2 OR b3)"

text \<open>
  Lines 97-100 and 109-112: four assignments in this order, each narrowing a
  \<open>uint32_t\<close> to \<open>uint8_t\<close>.
\<close>

definition store32 :: "8 word list \<Rightarrow> 32 word \<Rightarrow> 32 word \<Rightarrow> 8 word list" where
  "store32 mem offset value =
     (let m0 = mem[unat offset := ucast (drop_bit 24 value AND 0xFF)];
          m1 = m0[unat (offset + 1) := ucast (drop_bit 16 value AND 0xFF)];
          m2 = m1[unat (offset + 2) := ucast (drop_bit 8 value AND 0xFF)]
      in m2[unat (offset + 3) := ucast (value AND 0xFF)])"

subsection \<open>read32 and write32\<close>

definition read32 :: "32 word \<Rightarrow> World \<Rightarrow> 32 word \<times> World" where
  "read32 address w =
     (if in_MEM1 address then
        (let offset = address AND (MEM1_SIZE - 1) in
         if offset + 3 < MEM1_SIZE then (load32 (mem1 (memory w)) offset, w)
         else (0, emit (SDL_Log ''MEM1 read out of range: 0x%08X'' [address]) w))
      else if in_MEM2 address then
        (let offset = address AND (MEM2_SIZE - 1) in
         if offset + 3 < MEM2_SIZE then (load32 (mem2 (memory w)) offset, w)
         else (0, emit (SDL_Log ''MEM2 read out of range: 0x%08X'' [address]) w))
      else if address = REG_VIDEO_BG_COLOR then (videoBgColor (memory w), w)
      else if address = REG_INPUT_STATE then
        (case input (memory w) of
           Some p \<Rightarrow> (getButtonState (inputs w p), emit (Call_getButtonState p) w)
         | None \<Rightarrow> (0, w))
      else if address = REG_AUDIO_FREQ then (audioFreqValue (memory w), w)
      else (0, emit (SDL_Log ''Unhandled read from address 0x%08X'' [address]) w))"

definition write32 :: "32 word \<Rightarrow> 32 word \<Rightarrow> World \<Rightarrow> World" where
  "write32 address value w =
     (if in_MEM1 address then
        (let offset = address AND (MEM1_SIZE - 1) in
         if offset + 3 < MEM1_SIZE
         then w\<lparr>memory := (memory w)\<lparr>mem1 := store32 (mem1 (memory w)) offset value\<rparr>\<rparr>
         else emit (SDL_Log ''MEM1 write out of range: 0x%08X'' [address]) w)
      else if in_MEM2 address then
        (let offset = address AND (MEM2_SIZE - 1) in
         if offset + 3 < MEM2_SIZE
         then w\<lparr>memory := (memory w)\<lparr>mem2 := store32 (mem2 (memory w)) offset value\<rparr>\<rparr>
         else emit (SDL_Log ''MEM2 write out of range: 0x%08X'' [address]) w)
      else if address = REG_VIDEO_BG_COLOR then
        (let w1 = w\<lparr>memory := (memory w)\<lparr>videoBgColor := value\<rparr>\<rparr> in
         case video (memory w1) of
           Some p \<Rightarrow>
             emit (Call_setBackgroundColor p value)
               (w1\<lparr>videos := (videos w1)(p := setBackgroundColor value (videos w1 p))\<rparr>)
         | None \<Rightarrow> w1)
      else if address = REG_INPUT_STATE then
        emit (SDL_Log ''Ignoring write to input state register'' []) w
      else if address = REG_AUDIO_FREQ then
        (let w1 = w\<lparr>memory := (memory w)\<lparr>audioFreqValue := value\<rparr>\<rparr> in
         case audio (memory w1) of
           Some p \<Rightarrow>
             emit (Call_setToneFrequency p (real (unat value)))
               (w1\<lparr>audios := (audios w1)(p := setToneFrequency (real (unat value)) (audios w1 p))\<rparr>)
         | None \<Rightarrow> w1)
      else emit (SDL_Log ''Unhandled write to address 0x%08X: value 0x%08X'' [address, value]) w)"

subsection \<open>Observations used in the statements\<close>

text \<open>The calls of peripheral methods among the events, in order.\<close>

definition is_hook_call :: "event \<Rightarrow> bool" where
  "is_hook_call e =
     (case e of
        SDL_Log fmt args \<Rightarrow> False
      | Call_setBackgroundColor p c \<Rightarrow> True
      | Call_setToneFrequency p f \<Rightarrow> True
      | Call_getButtonState p \<Rightarrow> True)"

definition hook_calls :: "World \<Rightarrow> event list" where
  "hook_calls w = filter is_hook_call (trace w)"

text \<open>
  The class invariant: the vectors have the sizes the constructor gives to \<open>resize\<close>.
  No method of the class resizes them.
\<close>

definition sized :: "World \<Rightarrow> bool" where
  "sized w \<longleftrightarrow>
     length (mem1 (memory w)) = unat MEM1_SIZE \<and>
     length (mem2 (memory w)) = unat MEM2_SIZE"

text \<open>
  The emulator after \<open>WiiEmulator::init\<close> (lines 326-328): the three peripherals are
  connected; the peripheral objects are parameters.
\<close>

definition World_connected :: "Video \<Rightarrow> Audio \<Rightarrow> Input \<Rightarrow> World" where
  "World_connected v a i =
     \<lparr>memory = connectInput (Some 0) (connectAudio (Some 0) (connectVideo (Some 0) Memory_new)),
      videos = (\<lambda>p. v), audios = (\<lambda>p. a), inputs = (\<lambda>p. i), trace = []\<rparr>"

text \<open>A sequence of \<open>write32\<close> calls (address, value), made first to last.\<close>

definition writes :: "(32 word \<times> 32 word) list \<Rightarrow> World \<Rightarrow> World" where
  "writes ws w = foldl (\<lambda>s (address, value). write32 address value s) w ws"

text \<open>
  The state with one byte of \<open>mem1\<close> replaced. It is used to say that a read does not
  depend on that byte.
\<close>

definition poke_mem1 :: "nat \<Rightarrow> 8 word \<Rightarrow> World \<Rightarrow> World" where
  "poke_mem1 i x w = w\<lparr>memory := (memory w)\<lparr>mem1 := (mem1 (memory w))[i := x]\<rparr>\<rparr>"

text \<open>
  A freshly built emulator: no peripheral bound, every peripheral object as its
  constructor leaves it (lines 145, 207 and 267).
\<close>

definition World_new :: World where
  "World_new =
     \<lparr>memory = Memory_new,
      videos = (\<lambda>p. \<lparr>bgColor = 0x00000000\<rparr>),
      audios = (\<lambda>p. \<lparr>frequency = 440\<rparr>),
      inputs = (\<lambda>p. \<lparr>buttonState = 0\<rparr>),
      trace = []\<rparr>"

section \<open>Bytes of a 32-bit word\<close>

lemma ff_mask: "(0xFF :: 32 word) = mask 8"
  by (simp add: mask_eq_exp_minus_1)

lemma byte_of:
  fixes x :: "32 word"
  shows "(ucast (ucast (x AND 0xFF) :: 8 word) :: 32 word) = take_bit 8 x"
  unfolding ff_mask
  by (rule bit_word_eqI) (auto simp add: bit_simps)

lemma pack_unpack:
  fixes v :: "32 word"
  shows "push_bit 24 (ucast (ucast (drop_bit 24 v AND 0xFF) :: 8 word) :: 32 word)
       OR push_bit 16 (ucast (ucast (drop_bit 16 v AND 0xFF) :: 8 word))
       OR push_bit 8 (ucast (ucast (drop_bit 8 v AND 0xFF) :: 8 word))
       OR ucast (ucast (v AND 0xFF) :: 8 word) = v"
  unfolding byte_of
proof (rule bit_word_eqI)
  fix n assume n: "n < LENGTH(32)"
  consider "n < 8" | "8 \<le> n" "n < 16" | "16 \<le> n" "n < 24" | "24 \<le> n" "n < 32"
    using n by fastforce
  then show "bit (push_bit 24 (take_bit 8 (drop_bit 24 v)) OR
         push_bit 16 (take_bit 8 (drop_bit 16 v)) OR
         push_bit 8 (take_bit 8 (drop_bit 8 v)) OR take_bit 8 v) n = bit v n"
    by cases (auto simp add: bit_simps)
qed

section \<open>Offsets that stay inside a vector\<close>

lemma span_unat:
  fixes offset :: "32 word"
  assumes "offset + 3 < n" "offset \<le> 0x03FFFFFF"
  shows "unat (offset + 1) = unat offset + 1" "unat (offset + 2) = unat offset + 2"
        "unat (offset + 3) = unat offset + 3" "unat offset + 3 < unat n"
proof -
  have b: "unat offset \<le> 0x03FFFFFF" using assms(2) by (simp add: word_le_nat_alt)
  show 1: "unat (offset + 1) = unat offset + 1" using b by (simp add: unat_word_ariths)
  show 2: "unat (offset + 2) = unat offset + 2" using b by (simp add: unat_word_ariths)
  show 3: "unat (offset + 3) = unat offset + 3" using b by (simp add: unat_word_ariths)
  show "unat offset + 3 < unat n" using assms(1) 3 by (simp add: word_less_nat_alt)
qed

lemma mask1_le: "(a :: 32 word) AND (MEM1_SIZE - 1) \<le> 0x03FFFFFF"
proof -
  have "a AND (MEM1_SIZE - 1) \<le> MEM1_SIZE - 1" by (rule word_and_le1)
  also have "\<dots> \<le> 0x03FFFFFF" by (simp add: MEM1_SIZE_def)
  finally show ?thesis .
qed

lemma mask2_le: "(a :: 32 word) AND (MEM2_SIZE - 1) \<le> 0x03FFFFFF"
proof -
  have "a AND (MEM2_SIZE - 1) \<le> MEM2_SIZE - 1" by (rule word_and_le1)
  also have "\<dots> \<le> 0x03FFFFFF" by (simp add: MEM2_SIZE_def)
  finally show ?thesis .
qed

lemma load_store:
  assumes "unat (offset + 1) = unat offset + 1" "unat (offset + 2) = unat offset + 2"
        "unat (offset + 3) = unat offset + 3" "unat offset + 3 < length mem"
  shows "store32 mem offset v ! unat offset = ucast (drop_bit 24 v AND 0xFF)"
    "store32 mem offset v ! (unat offset + 1) = ucast (drop_bit 16 v AND 0xFF)"
    "store32 mem offset v ! (unat offset + 2) = ucast (drop_bit 8 v AND 0xFF)"
    "store32 mem offset v ! (unat offset + 3) = ucast (v AND 0xFF)"
    "length (store32 mem offset v) = length mem"
  using assms by (simp_all add: store32_def Let_def)

section \<open>Windows and masks\<close>

lemma low_bits_of_window:
  fixes base o' m :: "32 word"
  assumes "base AND mask 28 = 0" "m < 2 ^ 28"
  shows "(base + o') AND m = o' AND m"
proof -
  have m: "m AND mask 28 = m"
    using assms(2) by (rule less_mask_eq)
  have "(base + o') AND mask 28 = ((base AND mask 28) + o') AND mask 28"
    by (simp only: mask_eqs)
  then have t: "(base + o') AND mask 28 = o' AND mask 28"
    using assms(1) by simp
  have "(base + o') AND m = ((base + o') AND mask 28) AND m"
    using m by (metis and.assoc and.commute)
  also have "\<dots> = (o' AND mask 28) AND m"
    using t by simp
  also have "\<dots> = o' AND m"
    using m by (metis and.assoc and.commute)
  finally show ?thesis .
qed

lemma window_MEM1:
  assumes "o' < MEM1_SIZE" "base = 0x80000000 \<or> base = 0xC0000000"
  shows "in_MEM1 (base + o')"
proof -
  have "unat o' < 25165824"
    using assms(1) by (simp add: word_less_nat_alt MEM1_SIZE_def)
  then show ?thesis
    using assms(2)
    by (auto simp add: in_MEM1_def MEM1_SIZE_def word_le_nat_alt word_less_nat_alt unat_word_ariths)
qed

lemma window_MEM2:
  assumes "o' < MEM2_SIZE" "base = 0x90000000 \<or> base = 0xD0000000"
  shows "in_MEM2 (base + o')"
proof -
  have "unat o' < 67108864"
    using assms(1) by (simp add: word_less_nat_alt MEM2_SIZE_def)
  then show ?thesis
    using assms(2)
    by (auto simp add: in_MEM2_def MEM2_SIZE_def word_le_nat_alt word_less_nat_alt unat_word_ariths)
qed

lemma windows_disjoint: "in_MEM1 a \<Longrightarrow> \<not> in_MEM2 a"
  by (auto simp add: in_MEM1_def in_MEM2_def MEM1_SIZE_def MEM2_SIZE_def word_le_nat_alt word_less_nat_alt)

lemma aligned_span:
  fixes o' n m :: "32 word"
  assumes "o' < n" "unat o' mod 4 = 0" "unat n mod 4 = 0" "n \<le> 0x04000000"
  shows "(o' AND m) + 3 < n"
proof -
  have le: "unat (o' AND m) \<le> unat o'"
    by (simp add: word_and_le2 flip: word_le_nat_alt)
  have lt: "unat o' < unat n" using assms(1) by (simp add: word_less_nat_alt)
  have n: "unat n \<le> 0x04000000" using assms(4) by (simp add: word_le_nat_alt)
  have "unat o' + 3 < unat n" using lt assms(2,3) by presburger
  then have "unat (o' AND m) + 3 < unat n" using le by linarith
  moreover have "unat ((o' AND m) + 3) = unat (o' AND m) + 3"
    using le lt n by (simp add: unat_word_ariths)
  ultimately show ?thesis by (simp add: word_less_nat_alt)
qed

section \<open>Writing and reading back\<close>

lemma narrow_byte:
  fixes x :: "32 word"
  shows "(ucast (x AND 0xFF) :: 8 word) = ucast x"
  unfolding ff_mask
  by (rule bit_word_eqI) (auto simp add: bit_simps)

lemma load32_store32:
  assumes "unat (offset + 1) = unat offset + 1" "unat (offset + 2) = unat offset + 2"
        "unat (offset + 3) = unat offset + 3" "unat offset + 3 < length mem"
  shows "load32 (store32 mem offset v) offset = v"
proof -
  note b = load_store [OF assms, of v]
  have "load32 (store32 mem offset v) offset =
      push_bit 24 (ucast (store32 mem offset v ! unat offset)) OR
      push_bit 16 (ucast (store32 mem offset v ! (unat offset + 1))) OR
      push_bit 8 (ucast (store32 mem offset v ! (unat offset + 2))) OR
      ucast (store32 mem offset v ! (unat offset + 3))"
    by (simp only: load32_def Let_def assms(1,2,3))
  also have "\<dots> = v"
    by (simp only: b(1,2,3,4) pack_unpack)
  finally show ?thesis .
qed

lemma MEM1_SIZE_le: "MEM1_SIZE \<le> 0x04000000"
  by (simp add: MEM1_SIZE_def)

lemma MEM2_SIZE_le: "MEM2_SIZE \<le> 0x04000000"
  by (simp add: MEM2_SIZE_def)

lemma mem1_roundtrip:
  assumes "sized w" "in_MEM1 a" "(a AND (MEM1_SIZE - 1)) + 3 < MEM1_SIZE"
  shows "fst (read32 a (write32 a v w)) = v"
proof -
  let ?off = "a AND (MEM1_SIZE - 1)"
  note s = span_unat [OF assms(3) mask1_le]
  have len: "unat ?off + 3 < length (mem1 (memory w))"
    using s(4) assms(1) by (simp add: sized_def)
  show ?thesis
    using assms(2,3) load32_store32 [OF s(1,2,3) len]
    by (simp add: read32_def write32_def Let_def)
qed

lemma mem2_roundtrip:
  assumes "sized w" "in_MEM2 a" "(a AND (MEM2_SIZE - 1)) + 3 < MEM2_SIZE"
  shows "fst (read32 a (write32 a v w)) = v"
proof -
  let ?off = "a AND (MEM2_SIZE - 1)"
  note s = span_unat [OF assms(3) mask2_le]
  have len: "unat ?off + 3 < length (mem2 (memory w))"
    using s(4) assms(1) by (simp add: sized_def)
  have no1: "\<not> in_MEM1 a"
    using assms(2) windows_disjoint by blast
  show ?thesis
    using assms(2,3) no1 load32_store32 [OF s(1,2,3) len]
    by (simp add: read32_def write32_def Let_def)
qed

lemma base_low_bits:
  "(0x80000000 :: 32 word) AND mask 28 = 0" "(0xC0000000 :: 32 word) AND mask 28 = 0"
  "(0x90000000 :: 32 word) AND mask 28 = 0" "(0xD0000000 :: 32 word) AND mask 28 = 0"
  by (simp_all add: mask_eq_exp_minus_1)

lemma mask_small: "MEM1_SIZE - 1 < 2 ^ 28" "MEM2_SIZE - 1 < 2 ^ 28"
  by (simp_all add: MEM1_SIZE_def MEM2_SIZE_def)

lemma size_mod4: "unat MEM1_SIZE mod 4 = 0" "unat MEM2_SIZE mod 4 = 0"
  by (simp_all add: MEM1_SIZE_def MEM2_SIZE_def)


lemma store32_bytes:
  assumes "unat (offset + 1) = unat offset + 1" "unat (offset + 2) = unat offset + 2"
        "unat (offset + 3) = unat offset + 3" "unat offset + 3 < length mem"
  shows "[store32 mem offset v ! unat offset, store32 mem offset v ! (unat offset + 1),
          store32 mem offset v ! (unat offset + 2), store32 mem offset v ! (unat offset + 3)] =
         [ucast (drop_bit 24 v), ucast (drop_bit 16 v), ucast (drop_bit 8 v), ucast v]"
  by (simp only: load_store [OF assms] narrow_byte)

section \<open>Diagnostics, out-of-range spans and aliases\<close>

lemma emit_fields:
  "memory (emit e w) = memory w" "videos (emit e w) = videos w"
  "audios (emit e w) = audios w" "inputs (emit e w) = inputs w"
  "trace (emit e w) = trace w @ [e]"
  by (simp_all add: emit_def)

lemma hook_calls_emit:
  "hook_calls (emit e w) = hook_calls w @ (if is_hook_call e then [e] else [])"
  by (simp add: hook_calls_def emit_def)

lemma hook_calls_SDL_Log: "hook_calls (emit (SDL_Log fmt args) w) = hook_calls w"
  by (simp add: hook_calls_emit is_hook_call_def)

lemma span_check:
  fixes offset n :: "32 word"
  assumes "offset \<le> 0x03FFFFFF"
  shows "offset + 3 < n \<longleftrightarrow> unat offset + 3 < unat n"
proof -
  have "unat offset \<le> 0x03FFFFFF" using assms by (simp add: word_le_nat_alt)
  then have "unat (offset + 3) = unat offset + 3" by (simp add: unat_word_ariths)
  then show ?thesis by (simp add: word_less_nat_alt)
qed

lemma mem1_out_of_range:
  assumes "in_MEM1 a" "unat (a AND (MEM1_SIZE - 1)) + 3 \<ge> unat MEM1_SIZE"
  shows "read32 a w = (0, emit (SDL_Log ''MEM1 read out of range: 0x%08X'' [a]) w)"
    "write32 a v w = emit (SDL_Log ''MEM1 write out of range: 0x%08X'' [a]) w"
proof -
  have "\<not> (a AND (MEM1_SIZE - 1)) + 3 < MEM1_SIZE"
    using assms(2) by (simp add: span_check [OF mask1_le])
  then show "read32 a w = (0, emit (SDL_Log ''MEM1 read out of range: 0x%08X'' [a]) w)"
    "write32 a v w = emit (SDL_Log ''MEM1 write out of range: 0x%08X'' [a]) w"
    using assms(1) by (simp_all add: read32_def write32_def Let_def)
qed

lemma mem2_out_of_range:
  assumes "in_MEM2 a" "unat (a AND (MEM2_SIZE - 1)) + 3 \<ge> unat MEM2_SIZE"
  shows "read32 a w = (0, emit (SDL_Log ''MEM2 read out of range: 0x%08X'' [a]) w)"
    "write32 a v w = emit (SDL_Log ''MEM2 write out of range: 0x%08X'' [a]) w"
proof -
  have "\<not> (a AND (MEM2_SIZE - 1)) + 3 < MEM2_SIZE"
    using assms(2) by (simp add: span_check [OF mask2_le])
  moreover have "\<not> in_MEM1 a"
    using assms(1) windows_disjoint by blast
  ultimately show "read32 a w = (0, emit (SDL_Log ''MEM2 read out of range: 0x%08X'' [a]) w)"
    "write32 a v w = emit (SDL_Log ''MEM2 write out of range: 0x%08X'' [a]) w"
    using assms(1) by (simp_all add: read32_def write32_def Let_def)
qed

lemma alias_offset_MEM1:
  assumes "base = 0x80000000 \<or> base = 0xC0000000"
  shows "(base + off) AND (MEM1_SIZE - 1) = off AND (MEM1_SIZE - 1)"
proof -
  have "base AND mask 28 = 0" using assms base_low_bits by auto
  then show ?thesis using mask_small(1) by (rule low_bits_of_window)
qed

lemma alias_offset_MEM2:
  assumes "base = 0x90000000 \<or> base = 0xD0000000"
  shows "(base + off) AND (MEM2_SIZE - 1) = off AND (MEM2_SIZE - 1)"
proof -
  have "base AND mask 28 = 0" using assms base_low_bits by auto
  then show ?thesis using mask_small(2) by (rule low_bits_of_window)
qed

lemma same_offset_MEM1:
  assumes "in_MEM1 a" "in_MEM1 b" "a AND (MEM1_SIZE - 1) = b AND (MEM1_SIZE - 1)"
  shows "fst (read32 a w) = fst (read32 b w)" "memory (write32 a v w) = memory (write32 b v w)"
  using assms by (simp_all add: read32_def write32_def Let_def emit_fields)

lemma same_offset_MEM2:
  assumes "in_MEM2 a" "in_MEM2 b" "a AND (MEM2_SIZE - 1) = b AND (MEM2_SIZE - 1)"
  shows "fst (read32 a w) = fst (read32 b w)" "memory (write32 a v w) = memory (write32 b v w)"
proof -
  have "\<not> in_MEM1 a" "\<not> in_MEM1 b"
    using assms(1,2) windows_disjoint by blast+
  then show "fst (read32 a w) = fst (read32 b w)"
    "memory (write32 a v w) = memory (write32 b v w)"
    using assms by (simp_all add: read32_def write32_def Let_def emit_fields)
qed

section \<open>Registers and unmapped addresses\<close>

lemma registers_outside_windows:
  "\<not> in_MEM1 0x0D000000" "\<not> in_MEM2 0x0D000000"
  "\<not> in_MEM1 0x0D000004" "\<not> in_MEM2 0x0D000004"
  "\<not> in_MEM1 0x0D000008" "\<not> in_MEM2 0x0D000008"
  by (simp_all add: in_MEM1_def in_MEM2_def MEM1_SIZE_def MEM2_SIZE_def)

lemma write32_input_state:
  "write32 0x0D000004 v w = emit (SDL_Log ''Ignoring write to input state register'' []) w"
  by (simp add: write32_def registers_outside_windows REG_VIDEO_BG_COLOR_def REG_INPUT_STATE_def)

lemma read32_input_state:
  "read32 0x0D000004 w =
     (case input (memory w) of
        Some p \<Rightarrow> (getButtonState (inputs w p), emit (Call_getButtonState p) w)
      | None \<Rightarrow> (0, w))"
  by (simp add: read32_def registers_outside_windows REG_VIDEO_BG_COLOR_def REG_INPUT_STATE_def)

lemma write32_bg_color:
  "write32 0x0D000000 v w =
     (case video (memory w) of
        Some p \<Rightarrow>
          emit (Call_setBackgroundColor p v)
            (w\<lparr>memory := (memory w)\<lparr>videoBgColor := v\<rparr>,
               videos := (videos w)(p := setBackgroundColor v (videos w p))\<rparr>)
      | None \<Rightarrow> w\<lparr>memory := (memory w)\<lparr>videoBgColor := v\<rparr>\<rparr>)"
  by (simp add: write32_def registers_outside_windows REG_VIDEO_BG_COLOR_def Let_def
      split: option.split)

lemma read32_bg_color: "read32 0x0D000000 w = (videoBgColor (memory w), w)"
  by (simp add: read32_def registers_outside_windows REG_VIDEO_BG_COLOR_def)

lemma unmapped_read32:
  assumes "\<not> in_MEM1 a" "\<not> in_MEM2 a" "a \<noteq> REG_VIDEO_BG_COLOR" "a \<noteq> REG_INPUT_STATE"
    "a \<noteq> REG_AUDIO_FREQ"
  shows "read32 a w = (0, emit (SDL_Log ''Unhandled read from address 0x%08X'' [a]) w)"
  using assms by (simp add: read32_def)

lemma unmapped_write32:
  assumes "\<not> in_MEM1 a" "\<not> in_MEM2 a" "a \<noteq> REG_VIDEO_BG_COLOR" "a \<noteq> REG_INPUT_STATE"
    "a \<noteq> REG_AUDIO_FREQ"
  shows "write32 a v w =
    emit (SDL_Log ''Unhandled write to address 0x%08X: value 0x%08X'' [a, v]) w"
  using assms by (simp add: write32_def)

lemma read32_fields:
  "memory (snd (read32 a w)) = memory w"
  "videos (snd (read32 a w)) = videos w"
  "audios (snd (read32 a w)) = audios w"
  "inputs (snd (read32 a w)) = inputs w"
  by (simp_all add: read32_def Let_def emit_fields split: option.split)

lemma read32_hook_calls:
  "hook_calls (snd (read32 a w)) =
     hook_calls w @
     (if a = 0x0D000004
      then (case input (memory w) of Some p \<Rightarrow> [Call_getButtonState p] | None \<Rightarrow> [])
      else [])"
proof (cases "a = 0x0D000004")
  case True
  then show ?thesis
    by (simp add: read32_input_state hook_calls_emit is_hook_call_def split: option.split)
next
  case False
  then have "a \<noteq> REG_INPUT_STATE" by (simp add: REG_INPUT_STATE_def)
  then show ?thesis
    using False by (simp add: read32_def Let_def hook_calls_SDL_Log)
qed

lemma read32_trace:
  "trace (snd (read32 a w)) =
     trace w @
     (if in_MEM1 a then
        (if unat (a AND (MEM1_SIZE - 1)) + 3 < unat MEM1_SIZE then []
         else [SDL_Log ''MEM1 read out of range: 0x%08X'' [a]])
      else if in_MEM2 a then
        (if unat (a AND (MEM2_SIZE - 1)) + 3 < unat MEM2_SIZE then []
         else [SDL_Log ''MEM2 read out of range: 0x%08X'' [a]])
      else if a = 0x0D000000 then []
      else if a = 0x0D000004 then
        (case input (memory w) of Some p \<Rightarrow> [Call_getButtonState p] | None \<Rightarrow> [])
      else if a = 0x0D000008 then []
      else [SDL_Log ''Unhandled read from address 0x%08X'' [a]])"
  by (simp add: read32_def Let_def emit_fields span_check [OF mask1_le] span_check [OF mask2_le]
      REG_VIDEO_BG_COLOR_def REG_INPUT_STATE_def REG_AUDIO_FREQ_def split: option.split)

section \<open>The sizes of the vectors never change\<close>

lemma sized_new: "sized World_new"
  by (simp add: sized_def World_new_def Memory_new_def)

lemma length_store32: "length (store32 mem offset v) = length mem"
  by (simp add: store32_def Let_def)

lemma write32_lengths:
  "length (mem1 (memory (write32 a v w))) = length (mem1 (memory w))"
  "length (mem2 (memory (write32 a v w))) = length (mem2 (memory w))"
  by (simp_all add: write32_def Let_def emit_fields length_store32 split: option.split)

lemma sized_write32: "sized w \<Longrightarrow> sized (write32 a v w)"
  by (simp add: sized_def write32_lengths)

lemma sized_read32: "sized w \<Longrightarrow> sized (snd (read32 a w))"
  by (simp add: sized_def read32_fields)

section \<open>The mask of MEM1\<close>

lemma MEM1_mask_bits: "MEM1_SIZE - 1 = mask 23 OR 2 ^ 24"
  by (simp add: MEM1_SIZE_def mask_eq_exp_minus_1)

lemma MEM2_mask_bits: "MEM2_SIZE - 1 = mask 26"
  by (simp add: MEM2_SIZE_def mask_eq_exp_minus_1)

lemma and_single_bit:
  fixes a :: "32 word"
  shows "a AND 2 ^ n = (if bit a n then 2 ^ n else 0)"
  by (rule bit_word_eqI) (auto simp add: bit_simps)

lemma MEM1_offset_split:
  fixes a :: "32 word"
  shows "a AND (MEM1_SIZE - 1) = (a AND mask 23) OR (a AND 2 ^ 24)"
  by (simp only: MEM1_mask_bits bit.conj_disj_distrib)

lemma MEM1_offset_gap:
  fixes a :: "32 word"
  shows "unat (a AND (MEM1_SIZE - 1)) < 0x800000 \<or> 0x1000000 \<le> unat (a AND (MEM1_SIZE - 1))"
proof (cases "bit a 24")
  case True
  have "a AND 2 ^ 24 = 2 ^ 24"
    using True by (simp only: and_single_bit if_True)
  then have "a AND (MEM1_SIZE - 1) = (a AND mask 23) OR 2 ^ 24"
    by (simp only: MEM1_offset_split)
  moreover have "(2 ^ 24 :: 32 word) \<le> (a AND mask 23) OR 2 ^ 24"
    by (rule le_word_or1)
  ultimately have "(2 ^ 24 :: 32 word) \<le> a AND (MEM1_SIZE - 1)"
    by (simp only:)
  then show ?thesis
    by (simp add: word_le_nat_alt)
next
  case False
  have "a AND 2 ^ 24 = 0"
    using False by (simp only: and_single_bit if_False)
  then have "a AND (MEM1_SIZE - 1) = (a AND mask 23) OR 0"
    by (simp only: MEM1_offset_split)
  then have "a AND (MEM1_SIZE - 1) = a AND mask 23"
    by (simp only: or.right_neutral)
  moreover have "a AND mask 23 < 2 ^ 23"
    by (rule and_mask_less') simp
  ultimately show ?thesis
    by (simp add: word_less_nat_alt)
qed

lemma low24_offset:
  fixes r :: "32 word"
  assumes "r < 2 ^ 24"
  shows "r AND (MEM1_SIZE - 1) = r AND mask 23"
proof -
  have "r AND (MEM1_SIZE - 1) = (r AND mask 24) AND (MEM1_SIZE - 1)"
    using assms by (simp add: less_mask_eq)
  also have "\<dots> = r AND (mask 24 AND (MEM1_SIZE - 1))"
    by (simp add: and.assoc)
  also have "mask 24 AND (MEM1_SIZE - 1) = (mask 23 :: 32 word)"
    by (simp add: MEM1_SIZE_def mask_eq_exp_minus_1)
  finally show ?thesis .
qed

lemma drop_bit23:
  fixes r :: "32 word"
  shows "(r - 0x00800000) AND mask 23 = r AND mask 23"
proof -
  have "(0x00800000 :: 32 word) AND mask 23 = 0"
    by (simp add: mask_eq_exp_minus_1)
  then have "r - (0x00800000 AND mask 23) AND mask 23 = r AND mask 23"
    by simp
  then show ?thesis
    by (simp only: mask_eqs)
qed

lemma shadow_split:
  fixes a base :: "32 word"
  assumes "base + 0x00800000 \<le> a" "a < base + 0x01000000"
    "base = 0x80000000 \<or> base = 0xC0000000"
  shows "a - base < 2 ^ 24" "a - base - 0x00800000 < 2 ^ 24"
    "a - base < MEM1_SIZE" "a - base - 0x00800000 < MEM1_SIZE"
  using assms by (auto simp add: MEM1_SIZE_def word_le_nat_alt word_less_nat_alt unat_sub_if')

lemma shadow_same_offset:
  fixes a base :: "32 word"
  assumes "base + 0x00800000 \<le> a" "a < base + 0x01000000"
    "base = 0x80000000 \<or> base = 0xC0000000"
  shows "in_MEM1 a" "in_MEM1 (a - 0x00800000)"
    "a AND (MEM1_SIZE - 1) = (a - 0x00800000) AND (MEM1_SIZE - 1)"
proof -
  let ?r = "a - base"
  note s = shadow_split [OF assms]
  have a: "a = base + ?r" by simp
  have a': "a - 0x00800000 = base + (?r - 0x00800000)" by simp
  show "in_MEM1 a"
    using window_MEM1 [OF s(3) assms(3)] by simp
  show "in_MEM1 (a - 0x00800000)"
    using window_MEM1 [OF s(4) assms(3)] by simp
  have "a AND (MEM1_SIZE - 1) = ?r AND (MEM1_SIZE - 1)"
    using alias_offset_MEM1 [OF assms(3), of ?r] by simp
  also have "\<dots> = ?r AND mask 23"
    using s(1) by (rule low24_offset)
  also have "\<dots> = (?r - 0x00800000) AND mask 23"
    by (rule drop_bit23 [symmetric])
  also have "\<dots> = (?r - 0x00800000) AND (MEM1_SIZE - 1)"
    using s(2) by (rule low24_offset [symmetric])
  also have "\<dots> = (base + (?r - 0x00800000)) AND (MEM1_SIZE - 1)"
    by (rule alias_offset_MEM1 [OF assms(3), symmetric])
  also have "\<dots> = (a - 0x00800000) AND (MEM1_SIZE - 1)"
    by simp
  finally show "a AND (MEM1_SIZE - 1) = (a - 0x00800000) AND (MEM1_SIZE - 1)" .
qed

lemma store32_elsewhere:
  assumes "i \<noteq> unat offset" "i \<noteq> unat (offset + 1)" "i \<noteq> unat (offset + 2)"
    "i \<noteq> unat (offset + 3)"
  shows "store32 mem offset v ! i = mem ! i"
  using assms by (simp add: store32_def Let_def)

lemma load32_elsewhere:
  assumes "i \<noteq> unat offset" "i \<noteq> unat (offset + 1)" "i \<noteq> unat (offset + 2)"
    "i \<noteq> unat (offset + 3)"
  shows "load32 (mem[i := x]) offset = load32 mem offset"
  using assms by (simp add: load32_def Let_def)

lemma span_misses_gap:
  fixes a :: "32 word"
  assumes "(a AND (MEM1_SIZE - 1)) + 3 < MEM1_SIZE" "0x800003 \<le> i" "i < 0x1000000"
  shows "i \<noteq> unat (a AND (MEM1_SIZE - 1))" "i \<noteq> unat ((a AND (MEM1_SIZE - 1)) + 1)"
    "i \<noteq> unat ((a AND (MEM1_SIZE - 1)) + 2)" "i \<noteq> unat ((a AND (MEM1_SIZE - 1)) + 3)"
proof -
  note s = span_unat [OF assms(1) mask1_le]
  note g = MEM1_offset_gap [of a]
  show "i \<noteq> unat (a AND (MEM1_SIZE - 1))" using g assms(2,3) by linarith
  show "i \<noteq> unat ((a AND (MEM1_SIZE - 1)) + 1)" using g assms(2,3) s(1) by linarith
  show "i \<noteq> unat ((a AND (MEM1_SIZE - 1)) + 2)" using g assms(2,3) s(2) by linarith
  show "i \<noteq> unat ((a AND (MEM1_SIZE - 1)) + 3)" using g assms(2,3) s(3) by linarith
qed

lemma write32_misses_gap:
  assumes "0x800003 \<le> i" "i < 0x1000000"
  shows "mem1 (memory (write32 b v w)) ! i = mem1 (memory w) ! i"
proof (cases "in_MEM1 b \<and> (b AND (MEM1_SIZE - 1)) + 3 < MEM1_SIZE")
  case True
  then have "mem1 (memory (write32 b v w)) =
      store32 (mem1 (memory w)) (b AND (MEM1_SIZE - 1)) v"
    by (simp add: write32_def Let_def)
  then show ?thesis
    using span_misses_gap [OF _ assms, of b] True by (simp add: store32_elsewhere)
next
  case False
  then have "mem1 (memory (write32 b v w)) = mem1 (memory w)"
    by (auto simp add: write32_def Let_def emit_fields split: option.split)
  then show ?thesis by simp
qed

lemma poke_fields:
  "mem2 (memory (poke_mem1 i x w)) = mem2 (memory w)"
  "videoBgColor (memory (poke_mem1 i x w)) = videoBgColor (memory w)"
  "audioFreqValue (memory (poke_mem1 i x w)) = audioFreqValue (memory w)"
  "input (memory (poke_mem1 i x w)) = input (memory w)"
  "inputs (poke_mem1 i x w) = inputs w"
  "mem1 (memory (poke_mem1 i x w)) = (mem1 (memory w))[i := x]"
  by (simp_all add: poke_mem1_def)

lemma read32_misses_gap:
  assumes "0x800003 \<le> i" "i < 0x1000000"
  shows "fst (read32 b (poke_mem1 i x w)) = fst (read32 b w)"
proof (cases "in_MEM1 b \<and> (b AND (MEM1_SIZE - 1)) + 3 < MEM1_SIZE")
  case True
  then show ?thesis
    using span_misses_gap [OF _ assms, of b]
    by (simp add: read32_def Let_def poke_fields load32_elsewhere)
next
  case False
  then show ?thesis
    by (auto simp add: read32_def Let_def poke_fields split: option.split)
qed

lemma MEM1_SIZE_not_power: "unat MEM1_SIZE \<noteq> 2 ^ k"
proof
  assume h: "unat MEM1_SIZE = 2 ^ k"
  have v: "unat MEM1_SIZE = 25165824" by (simp add: MEM1_SIZE_def)
  show False
  proof (cases "k \<le> 24")
    case True
    then have "(2::nat) ^ k \<le> 2 ^ 24" by (rule power_increasing) simp
    then show False using h v by simp
  next
    case False
    then have "25 \<le> k" by simp
    then have "(2::nat) ^ 25 \<le> 2 ^ k" by (rule power_increasing) simp
    then show False using h v by simp
  qed
qed

text \<open>
  The range \<open>[0x00800003, 0x01000000)\<close> of \<open>write32_misses_gap\<close> cannot be widened:
  the indices just below it and the index just above it are written.
\<close>

lemma MEM1_gap_edges:
  "mem1 (memory (write32 0x807FFFFE 0xDEADBEEF World_new)) ! 0x800001 = 0xEF"
  "mem1 (memory (write32 0x807FFFFF 0xDEADBEEF World_new)) ! 0x800002 = 0xEF"
  "mem1 (memory (write32 0x81000000 0xDEADBEEF World_new)) ! 0x1000000 = 0xDE"
  by (simp_all add: World_new_def Memory_new_def write32_def in_MEM1_def MEM1_SIZE_def
      store32_def Let_def)

section \<open>The claims\<close>

text \<open>
  C1 (byte-order round trip). For every 32-bit value \<open>v\<close> and every offset \<open>off\<close>
  that is a multiple of 4 and lies below the size of a RAM region, writing \<open>v\<close> with
  \<open>write32\<close> at either window base plus \<open>off\<close> and reading the same address with
  \<open>read32\<close> gives \<open>v\<close> back.
\<close>

theorem write32_read32_roundtrip:
  assumes "sized w"
    and "(base = 0x80000000 \<or> base = 0xC0000000) \<and> off < MEM1_SIZE \<or>
         (base = 0x90000000 \<or> base = 0xD0000000) \<and> off < MEM2_SIZE"
    and "unat off mod 4 = 0"
  shows "fst (read32 (base + off) (write32 (base + off) v w)) = v"
proof -
  consider (r1) "base = 0x80000000 \<or> base = 0xC0000000" "off < MEM1_SIZE"
    | (r2) "base = 0x90000000 \<or> base = 0xD0000000" "off < MEM2_SIZE"
    using assms(2) by blast
  then show ?thesis
  proof cases
  case r1
  note b = r1(1) and lt = r1(2)
  have "base AND mask 28 = 0" using b base_low_bits by auto
  then have "(base + off) AND (MEM1_SIZE - 1) = off AND (MEM1_SIZE - 1)"
    using mask_small(1) by (rule low_bits_of_window)
  moreover have "(off AND (MEM1_SIZE - 1)) + 3 < MEM1_SIZE"
    using lt assms(3) size_mod4(1) MEM1_SIZE_le by (rule aligned_span)
  ultimately show ?thesis
    using mem1_roundtrip [OF assms(1) window_MEM1 [OF lt b]] by simp
next
  case r2
  note b = r2(1) and lt = r2(2)
  have "base AND mask 28 = 0" using b base_low_bits by auto
  then have "(base + off) AND (MEM2_SIZE - 1) = off AND (MEM2_SIZE - 1)"
    using mask_small(2) by (rule low_bits_of_window)
  moreover have "(off AND (MEM2_SIZE - 1)) + 3 < MEM2_SIZE"
    using lt assms(3) size_mod4(2) MEM2_SIZE_le by (rule aligned_span)
  ultimately show ?thesis
    using mem2_roundtrip [OF assms(1) window_MEM2 [OF lt b]] by simp
  qed
qed

theorem write32_read32_roundtrip_witness:
  "sized World_new \<and>
   fst (read32 0x80000000 (write32 0x80000000 0xDEADBEEF World_new)) = 0xDEADBEEF \<and>
   fst (read32 0xD3FFFFFC (write32 0xD3FFFFFC 0x01020304 World_new)) = 0x01020304"
  using write32_read32_roundtrip [of World_new "0x80000000" 0 "0xDEADBEEF"]
    write32_read32_roundtrip [of World_new "0xD0000000" "0x03FFFFFC" "0x01020304"]
  by (simp add: sized_new MEM1_SIZE_def MEM2_SIZE_def)

text \<open>
  C3 (big-endian byte layout). When \<open>write32\<close> stores \<open>v\<close> at an address of a RAM
  window whose masked offset \<open>off\<close> is in bounds, the region's byte at \<open>off\<close> holds
  bits 31-24 of \<open>v\<close>, the byte at \<open>off + 1\<close> bits 23-16, the byte at \<open>off + 2\<close>
  bits 15-8 and the byte at \<open>off + 3\<close> bits 7-0. The witness is the value
  \<open>0xDEADBEEF\<close> at offset 0 of both regions: the bytes are DE, AD, BE, EF.
\<close>

theorem write32_big_endian_layout:
  assumes "sized w"
    and "in_MEM1 a \<and> off = a AND (MEM1_SIZE - 1) \<and> off + 3 < MEM1_SIZE \<and>
           mem = mem1 (memory (write32 a v w)) \<or>
         in_MEM2 a \<and> off = a AND (MEM2_SIZE - 1) \<and> off + 3 < MEM2_SIZE \<and>
           mem = mem2 (memory (write32 a v w))"
  shows "[mem ! unat off, mem ! (unat off + 1), mem ! (unat off + 2), mem ! (unat off + 3)] =
         [ucast (drop_bit 24 v), ucast (drop_bit 16 v), ucast (drop_bit 8 v), ucast v]"
proof -
  consider (r1) "in_MEM1 a" "off = a AND (MEM1_SIZE - 1)" "off + 3 < MEM1_SIZE"
        "mem = mem1 (memory (write32 a v w))"
    | (r2) "in_MEM2 a" "off = a AND (MEM2_SIZE - 1)" "off + 3 < MEM2_SIZE"
        "mem = mem2 (memory (write32 a v w))"
    using assms(2) by blast
  then show ?thesis
  proof cases
    case r1
    have le: "off \<le> 0x03FFFFFF" unfolding r1(2) by (rule mask1_le)
    note s = span_unat [OF r1(3) le]
    have len: "unat off + 3 < length (mem1 (memory w))"
      using s(4) assms(1) by (simp add: sized_def)
    have "mem = store32 (mem1 (memory w)) off v"
      using r1 by (simp add: write32_def Let_def)
    then show ?thesis
      using store32_bytes [OF s(1,2,3) len] by simp
  next
    case r2
    have le: "off \<le> 0x03FFFFFF" unfolding r2(2) by (rule mask2_le)
    note s = span_unat [OF r2(3) le]
    have len: "unat off + 3 < length (mem2 (memory w))"
      using s(4) assms(1) by (simp add: sized_def)
    have no1: "\<not> in_MEM1 a"
      using r2(1) windows_disjoint by blast
    have "mem = store32 (mem2 (memory w)) off v"
      using r2 no1 by (simp add: write32_def Let_def)
    then show ?thesis
      using store32_bytes [OF s(1,2,3) len] by simp
  qed
qed

theorem write32_big_endian_layout_witness:
  "sized World_new \<and>
   map ((!) (mem1 (memory (write32 0x80000000 0xDEADBEEF World_new)))) [0, 1, 2, 3] =
     [0xDE, 0xAD, 0xBE, 0xEF] \<and>
   map ((!) (mem2 (memory (write32 0xD0000000 0xDEADBEEF World_new)))) [0, 1, 2, 3] =
     [0xDE, 0xAD, 0xBE, 0xEF]"
  using write32_big_endian_layout [of World_new "0x80000000" 0 _ "0xDEADBEEF", OF sized_new]
    write32_big_endian_layout [of World_new "0xD0000000" 0 _ "0xDEADBEEF", OF sized_new]
  by (simp add: sized_new in_MEM1_def in_MEM2_def MEM1_SIZE_def MEM2_SIZE_def del: add_2_eq_Suc add_2_eq_Suc')

text \<open>
  C2 (aliasing equivalence). For every offset below the size of Region1, \<open>read32\<close> at
  \<open>0x80000000 + off\<close> and at \<open>0xC0000000 + off\<close> return the same value in every
  state, so also after any sequence of writes, and a \<open>write32\<close> through either
  window leaves the same Memory object; likewise for Region2 with the bases
  \<open>0x90000000\<close> and \<open>0xD0000000\<close>.
\<close>

theorem alias_windows_agree:
  assumes "off < MEM1_SIZE \<and> a = 0x80000000 + off \<and> b = 0xC0000000 + off \<or>
           off < MEM2_SIZE \<and> a = 0x90000000 + off \<and> b = 0xD0000000 + off"
  shows "fst (read32 a w) = fst (read32 b w) \<and>
         fst (read32 a (writes ws w)) = fst (read32 b (writes ws w)) \<and>
         memory (write32 a v w) = memory (write32 b v w)"
proof -
  consider (r1) "off < MEM1_SIZE" "a = 0x80000000 + off" "b = 0xC0000000 + off"
    | (r2) "off < MEM2_SIZE" "a = 0x90000000 + off" "b = 0xD0000000 + off"
    using assms by blast
  then show ?thesis
  proof cases
    case r1
    have "in_MEM1 a" "in_MEM1 b"
      unfolding r1(2,3) using r1(1) by (simp_all add: window_MEM1)
    moreover have "a AND (MEM1_SIZE - 1) = b AND (MEM1_SIZE - 1)"
      unfolding r1(2,3) by (simp add: alias_offset_MEM1)
    ultimately show ?thesis
      using same_offset_MEM1 by blast
  next
    case r2
    have "in_MEM2 a" "in_MEM2 b"
      unfolding r2(2,3) using r2(1) by (simp_all add: window_MEM2)
    moreover have "a AND (MEM2_SIZE - 1) = b AND (MEM2_SIZE - 1)"
      unfolding r2(2,3) by (simp add: alias_offset_MEM2)
    ultimately show ?thesis
      using same_offset_MEM2 by blast
  qed
qed

theorem alias_windows_agree_witness:
  "fst (read32 0x80000010 (write32 0xC0000010 0x112233FF World_new)) = 0x112233FF \<and>
   fst (read32 0x80000010 (write32 0xC0000010 0x112233FF World_new)) =
   fst (read32 0xC0000010 (write32 0xC0000010 0x112233FF World_new)) \<and>
   memory (write32 0x80000010 0x112233FF World_new) =
   memory (write32 0xC0000010 0x112233FF World_new) \<and>
   fst (read32 0x90000010 (write32 0x90000010 0x112233FF World_new)) =
   fst (read32 0xD0000010 (write32 0x90000010 0x112233FF World_new))"
  using alias_windows_agree [of "0x10" "0x80000010" "0xC0000010"
      "write32 0xC0000010 0x112233FF World_new"]
    alias_windows_agree [of "0x10" "0x80000010" "0xC0000010" World_new _ "0x112233FF"]
    alias_windows_agree [of "0x10" "0x90000010" "0xD0000010"
      "write32 0x90000010 0x112233FF World_new"]
    mem1_roundtrip [of World_new "0xC0000010" "0x112233FF"]
  by (simp add: MEM1_SIZE_def MEM2_SIZE_def sized_new in_MEM1_def)

text \<open>
  C4 (out-of-range access). At an address of a RAM window whose masked offset plus 3
  reaches the region's size, \<open>read32\<close> returns 0 and \<open>write32\<close> changes neither the
  Memory object (both byte vectors, both stored registers, the bindings) nor any
  peripheral, and calls no peripheral method; a read after such a write returns 0.
  The witness takes the last address of a window of each region.
\<close>

theorem out_of_range_access:
  assumes "in_MEM1 a \<and> unat (a AND (MEM1_SIZE - 1)) + 3 \<ge> unat MEM1_SIZE \<or>
           in_MEM2 a \<and> unat (a AND (MEM2_SIZE - 1)) + 3 \<ge> unat MEM2_SIZE"
  shows "fst (read32 a w) = 0 \<and>
         memory (write32 a v w) = memory w \<and>
         videos (write32 a v w) = videos w \<and>
         audios (write32 a v w) = audios w \<and>
         inputs (write32 a v w) = inputs w \<and>
         hook_calls (write32 a v w) = hook_calls w \<and>
         fst (read32 a (write32 a v w)) = 0"
proof -
  consider (r1) "in_MEM1 a" "unat (a AND (MEM1_SIZE - 1)) + 3 \<ge> unat MEM1_SIZE"
    | (r2) "in_MEM2 a" "unat (a AND (MEM2_SIZE - 1)) + 3 \<ge> unat MEM2_SIZE"
    using assms by blast
  then show ?thesis
  proof cases
    case r1
    show ?thesis
      by (simp add: mem1_out_of_range [OF r1] emit_fields hook_calls_SDL_Log)
  next
    case r2
    show ?thesis
      by (simp add: mem2_out_of_range [OF r2] emit_fields hook_calls_SDL_Log)
  qed
qed

theorem out_of_range_access_witness:
  "in_MEM1 0x817FFFFF \<and> in_MEM2 0xD3FFFFFF \<and>
   fst (read32 0x817FFFFF (write32 0x817FFFFF 0xDEADBEEF World_new)) = 0 \<and>
   memory (write32 0x817FFFFF 0xDEADBEEF World_new) = memory World_new \<and>
   fst (read32 0xD3FFFFFF (write32 0xD3FFFFFF 0xDEADBEEF World_new)) = 0 \<and>
   memory (write32 0xD3FFFFFF 0xDEADBEEF World_new) = memory World_new"
  using out_of_range_access [of "0x817FFFFF" World_new "0xDEADBEEF"]
    out_of_range_access [of "0xD3FFFFFF" World_new "0xDEADBEEF"]
  by (simp add: in_MEM1_def in_MEM2_def MEM1_SIZE_def MEM2_SIZE_def)

text \<open>
  C5 (protected register). For every value, \<open>write32\<close> at \<open>0x0D000004\<close> changes neither
  the Memory object nor any peripheral and calls no peripheral method, and a following
  \<open>read32\<close> at \<open>0x0D000004\<close> returns the button state the bound Input object reports,
  or 0 when no Input is bound.
\<close>

theorem input_state_write_ignored:
  "memory (write32 0x0D000004 v w) = memory w \<and>
   videos (write32 0x0D000004 v w) = videos w \<and>
   audios (write32 0x0D000004 v w) = audios w \<and>
   inputs (write32 0x0D000004 v w) = inputs w \<and>
   hook_calls (write32 0x0D000004 v w) = hook_calls w \<and>
   fst (read32 0x0D000004 (write32 0x0D000004 v w)) =
     (case input (memory w) of Some p \<Rightarrow> getButtonState (inputs w p) | None \<Rightarrow> 0)"
  by (simp add: write32_input_state read32_input_state emit_fields hook_calls_SDL_Log
      split: option.split)

theorem input_state_write_ignored_witness:
  "fst (read32 0x0D000004 (write32 0x0D000004 0xFFFFFFFF
      (World_connected \<lparr>bgColor = 0\<rparr> \<lparr>frequency = 440\<rparr> \<lparr>buttonState = 0x41\<rparr>))) = 0x41 \<and>
   fst (read32 0x0D000004 (write32 0x0D000004 0xFFFFFFFF World_new)) = 0"
  using input_state_write_ignored [of "0xFFFFFFFF"
      "World_connected \<lparr>bgColor = 0\<rparr> \<lparr>frequency = 440\<rparr> \<lparr>buttonState = 0x41\<rparr>"]
    input_state_write_ignored [of "0xFFFFFFFF" World_new]
  by (simp add: World_connected_def World_new_def Memory_new_def connectInput_def
      connectAudio_def connectVideo_def getButtonState_def)

text \<open>
  C6 (register side effect). For every value \<open>v\<close>, \<open>write32\<close> at \<open>0x0D000000\<close> stores
  \<open>v\<close> in \<open>videoBgColor\<close>; when a Video is bound it calls \<open>setBackgroundColor\<close> on it
  once, with \<open>v\<close>, and when none is bound it calls nothing; a following \<open>read32\<close> at
  \<open>0x0D000000\<close> returns \<open>v\<close> in both cases.
\<close>

theorem background_color_write:
  "videoBgColor (memory (write32 0x0D000000 v w)) = v \<and>
   hook_calls (write32 0x0D000000 v w) =
     hook_calls w @
     (case video (memory w) of Some p \<Rightarrow> [Call_setBackgroundColor p v] | None \<Rightarrow> []) \<and>
   videos (write32 0x0D000000 v w) =
     (case video (memory w) of
        Some p \<Rightarrow> (videos w)(p := setBackgroundColor v (videos w p))
      | None \<Rightarrow> videos w) \<and>
   fst (read32 0x0D000000 (write32 0x0D000000 v w)) = v"
  by (simp add: write32_bg_color read32_bg_color emit_fields hook_calls_emit is_hook_call_def
      hook_calls_def split: option.split)

theorem background_color_write_witness:
  "hook_calls (write32 0x0D000000 0x112233FF
      (World_connected \<lparr>bgColor = 0\<rparr> \<lparr>frequency = 440\<rparr> \<lparr>buttonState = 0\<rparr>)) =
     [Call_setBackgroundColor 0 0x112233FF] \<and>
   hook_calls (write32 0x0D000000 0x112233FF World_new) = [] \<and>
   fst (read32 0x0D000000 (write32 0x0D000000 0x112233FF World_new)) = 0x112233FF"
  using background_color_write [of "0x112233FF"
      "World_connected \<lparr>bgColor = 0\<rparr> \<lparr>frequency = 440\<rparr> \<lparr>buttonState = 0\<rparr>"]
    background_color_write [of "0x112233FF" World_new]
  by (simp add: World_connected_def World_new_def Memory_new_def connectInput_def
      connectAudio_def connectVideo_def hook_calls_def)

text \<open>
  C7 (unmapped address). At an address in no RAM window and different from the three
  register addresses, \<open>read32\<close> returns 0 and calls no peripheral, and \<open>write32\<close> with
  any value changes neither the Memory object nor any peripheral and calls no
  peripheral method. Both functions are total, so a value is returned at every address.
\<close>

theorem unmapped_access:
  assumes "\<not> in_MEM1 a" "\<not> in_MEM2 a" "a \<noteq> REG_VIDEO_BG_COLOR" "a \<noteq> REG_INPUT_STATE"
    "a \<noteq> REG_AUDIO_FREQ"
  shows "fst (read32 a w) = 0 \<and>
         hook_calls (snd (read32 a w)) = hook_calls w \<and>
         memory (write32 a v w) = memory w \<and>
         videos (write32 a v w) = videos w \<and>
         audios (write32 a v w) = audios w \<and>
         inputs (write32 a v w) = inputs w \<and>
         hook_calls (write32 a v w) = hook_calls w"
  by (simp add: unmapped_read32 [OF assms] unmapped_write32 [OF assms] emit_fields
      hook_calls_SDL_Log)

theorem unmapped_access_witness:
  "\<not> in_MEM1 0x00000000 \<and> \<not> in_MEM2 0x00000000 \<and>
   fst (read32 0x00000000 World_new) = 0 \<and>
   memory (write32 0x00000000 0xDEADBEEF World_new) = memory World_new \<and>
   hook_calls (write32 0x00000000 0xDEADBEEF World_new) = hook_calls World_new"
  using unmapped_access [of 0 World_new "0xDEADBEEF"]
  by (simp add: in_MEM1_def in_MEM2_def MEM1_SIZE_def MEM2_SIZE_def REG_VIDEO_BG_COLOR_def
      REG_INPUT_STATE_def REG_AUDIO_FREQ_def)

text \<open>
  C9 (frame of read32), as amended. At every address and in every state \<open>read32\<close> leaves
  the Memory object (byte vectors, stored registers, bindings) and the peripheral
  objects as they were. The external calls it makes are given in full by the events it
  appends: one call of \<open>getButtonState\<close>, exactly when the address is \<open>0x0D000004\<close>
  and an Input is bound; one diagnostic through \<open>SDL_Log\<close>, exactly when the address
  lies in a RAM window and its masked offset plus 3 reaches the region's size, or
  when it lies in no window and is none of the three register addresses; and nothing
  otherwise. In particular the only peripheral method it calls is \<open>getButtonState\<close>.
\<close>

theorem read32_frame:
  "memory (snd (read32 a w)) = memory w \<and>
   videos (snd (read32 a w)) = videos w \<and>
   audios (snd (read32 a w)) = audios w \<and>
   inputs (snd (read32 a w)) = inputs w \<and>
   trace (snd (read32 a w)) =
     trace w @
     (if in_MEM1 a then
        (if unat (a AND (MEM1_SIZE - 1)) + 3 < unat MEM1_SIZE then []
         else [SDL_Log ''MEM1 read out of range: 0x%08X'' [a]])
      else if in_MEM2 a then
        (if unat (a AND (MEM2_SIZE - 1)) + 3 < unat MEM2_SIZE then []
         else [SDL_Log ''MEM2 read out of range: 0x%08X'' [a]])
      else if a = 0x0D000000 then []
      else if a = 0x0D000004 then
        (case input (memory w) of Some p \<Rightarrow> [Call_getButtonState p] | None \<Rightarrow> [])
      else if a = 0x0D000008 then []
      else [SDL_Log ''Unhandled read from address 0x%08X'' [a]]) \<and>
   hook_calls (snd (read32 a w)) =
     hook_calls w @
     (if a = 0x0D000004
      then (case input (memory w) of Some p \<Rightarrow> [Call_getButtonState p] | None \<Rightarrow> [])
      else [])"
  by (simp only: read32_fields read32_hook_calls read32_trace simp_thms)

theorem read32_frame_witness:
  "trace (snd (read32 0x0D000004
      (World_connected \<lparr>bgColor = 0\<rparr> \<lparr>frequency = 440\<rparr> \<lparr>buttonState = 0x41\<rparr>))) =
     [Call_getButtonState 0] \<and>
   trace (snd (read32 0x0D000004 World_new)) = [] \<and>
   trace (snd (read32 0x80000000 World_new)) = [] \<and>
   trace (snd (read32 0x0D000000 World_new)) = [] \<and>
   trace (snd (read32 0x0D000008 World_new)) = [] \<and>
   trace (snd (read32 0x93FFFFFF World_new)) =
     [SDL_Log ''MEM2 read out of range: 0x%08X'' [0x93FFFFFF]] \<and>
   hook_calls (snd (read32 0x0D000004
      (World_connected \<lparr>bgColor = 0\<rparr> \<lparr>frequency = 440\<rparr> \<lparr>buttonState = 0x41\<rparr>))) =
     [Call_getButtonState 0] \<and>
   hook_calls (snd (read32 0x0D000004 World_new)) = [] \<and>
   hook_calls (snd (read32 0x80000000 World_new)) = [] \<and>
   memory (snd (read32 0x80000000 World_new)) = memory World_new"
  using read32_frame [of "0x0D000004"
      "World_connected \<lparr>bgColor = 0\<rparr> \<lparr>frequency = 440\<rparr> \<lparr>buttonState = 0x41\<rparr>"]
    read32_frame [of "0x0D000004" World_new]
    read32_frame [of "0x80000000" World_new]
    read32_frame [of "0x0D000000" World_new]
    read32_frame [of "0x0D000008" World_new]
    read32_frame [of "0x93FFFFFF" World_new]
  by (simp add: World_connected_def World_new_def Memory_new_def connectInput_def
      connectAudio_def connectVideo_def hook_calls_def is_hook_call_def in_MEM1_def in_MEM2_def
      MEM1_SIZE_def MEM2_SIZE_def)

text \<open>
  C9 as stated fails: the input query is not the only external call. At address 0 and
  at the last address of the first MEM1 window, neither of which is \<open>0x0D000004\<close>,
  \<open>read32\<close> calls \<open>SDL_Log\<close>.
\<close>

theorem read32_frame_counterexample:
  "trace World_new = [] \<and>
   trace (snd (read32 0x00000000 World_new)) =
     [SDL_Log ''Unhandled read from address 0x%08X'' [0x00000000]] \<and>
   trace (snd (read32 0x817FFFFF World_new)) =
     [SDL_Log ''MEM1 read out of range: 0x%08X'' [0x817FFFFF]]"
  by (simp add: World_new_def read32_def emit_def in_MEM1_def in_MEM2_def MEM1_SIZE_def
      MEM2_SIZE_def REG_VIDEO_BG_COLOR_def REG_INPUT_STATE_def REG_AUDIO_FREQ_def Let_def)

text \<open>
  C8 (region sizes), as amended. \<open>MEM2_SIZE\<close> is 64 MiB, the power of two \<open>2 ^ 26\<close>, so
  the mask \<open>MEM2_SIZE - 1\<close> used by \<open>read32\<close> and \<open>write32\<close> selects the low 26 bits of
  the address; \<open>MEM1_SIZE\<close> is 24 MiB, which is \<open>3 * 2 ^ 23\<close> and no power of two.
\<close>

theorem region_sizes:
  "unat MEM1_SIZE = 24 * 1024 * 1024 \<and> unat MEM1_SIZE = 3 * 2 ^ 23 \<and>
   (\<forall>k. unat MEM1_SIZE \<noteq> 2 ^ k) \<and>
   unat MEM2_SIZE = 64 * 1024 * 1024 \<and> unat MEM2_SIZE = 2 ^ 26 \<and>
   a AND (MEM2_SIZE - 1) = take_bit 26 a"
proof -
  have "a AND (MEM2_SIZE - 1) = take_bit 26 a"
    by (simp only: MEM2_mask_bits take_bit_eq_mask)
  moreover have "unat MEM1_SIZE = 24 * 1024 * 1024 \<and> unat MEM1_SIZE = 3 * 2 ^ 23"
    by (simp add: MEM1_SIZE_def)
  moreover have "unat MEM2_SIZE = 64 * 1024 * 1024 \<and> unat MEM2_SIZE = 2 ^ 26"
    by (simp add: MEM2_SIZE_def)
  ultimately show ?thesis
    using MEM1_SIZE_not_power by blast
qed

text \<open>
  C8 as stated fails: the two sizes are not both powers of two, and the mask
  \<open>MEM1_SIZE - 1\<close> drops bit 23 of an address while it keeps bit 24.
\<close>

theorem region_sizes_counterexample:
  "\<not> ((\<exists>k. unat MEM1_SIZE = 2 ^ k) \<and> (\<exists>k. unat MEM2_SIZE = 2 ^ k)) \<and>
   0x00800000 AND (MEM1_SIZE - 1) = 0 \<and>
   0x01000000 AND (MEM1_SIZE - 1) = 0x01000000"
  by (simp add: MEM1_SIZE_not_power) (simp add: MEM1_SIZE_def)

text \<open>
  C10 (the unreachable part of MEM1), as amended. For every address \<open>a\<close> in
  \<open>[0x80800000, 0x81000000)\<close> or \<open>[0xC0800000, 0xC1000000)\<close>, \<open>a\<close> and \<open>a - 0x00800000\<close>
  lie in the MEM1 windows and have the same masked offset, so \<open>read32\<close> returns the
  same value and \<open>write32\<close> leaves the same Memory at both. The bytes of \<open>mem1\<close> at
  the indices \<open>[0x00800003, 0x01000000)\<close> are never written by \<open>write32\<close> and never
  influence the result of \<open>read32\<close>, at any address \<open>b\<close>.
\<close>

theorem MEM1_shadow_range:
  assumes "0x80800000 \<le> a \<and> a < 0x81000000 \<or> 0xC0800000 \<le> a \<and> a < 0xC1000000"
    and "0x800003 \<le> i" "i < 0x1000000"
  shows "in_MEM1 a \<and> in_MEM1 (a - 0x00800000) \<and>
         a AND (MEM1_SIZE - 1) = (a - 0x00800000) AND (MEM1_SIZE - 1) \<and>
         fst (read32 a w) = fst (read32 (a - 0x00800000) w) \<and>
         memory (write32 a v w) = memory (write32 (a - 0x00800000) v w) \<and>
         mem1 (memory (write32 b v w)) ! i = mem1 (memory w) ! i \<and>
         fst (read32 b (poke_mem1 i x w)) = fst (read32 b w)"
proof -
  have "\<exists>base :: 32 word. (base = 0x80000000 \<or> base = 0xC0000000) \<and>
      base + 0x00800000 \<le> a \<and> a < base + 0x01000000"
  proof (cases "0x80800000 \<le> a \<and> a < 0x81000000")
    case True
    then have "(0x80000000 :: 32 word) + 0x00800000 \<le> a \<and> a < 0x80000000 + 0x01000000"
      by simp
    then show ?thesis by blast
  next
    case False
    then have "0xC0800000 \<le> a \<and> a < 0xC1000000"
      using assms(1) by blast
    then have "(0xC0000000 :: 32 word) + 0x00800000 \<le> a \<and> a < 0xC0000000 + 0x01000000"
      by simp
    then show ?thesis by blast
  qed
  then obtain base :: "32 word" where b: "base = 0x80000000 \<or> base = 0xC0000000"
    and lo: "base + 0x00800000 \<le> a" and hi: "a < base + 0x01000000"
    by blast
  note s = shadow_same_offset [OF lo hi b]
  show ?thesis
    using s same_offset_MEM1 [OF s] write32_misses_gap [OF assms(2,3)]
      read32_misses_gap [OF assms(2,3)]
    by simp
qed

theorem MEM1_shadow_range_witness:
  "in_MEM1 0x80800000 \<and> in_MEM1 0x80000000 \<and>
   fst (read32 0x80800000 (write32 0x80000000 0xDEADBEEF World_new)) = 0xDEADBEEF \<and>
   mem1 (memory (write32 0x807FFFFF 0xDEADBEEF World_new)) ! 0x800003 =
     mem1 (memory World_new) ! 0x800003 \<and>
   fst (read32 0x807FFFFF (poke_mem1 0x800003 0xAB World_new)) =
     fst (read32 0x807FFFFF World_new)"
  using MEM1_shadow_range [of "0x80800000" "0x800003"
      "write32 0x80000000 0xDEADBEEF World_new" _ "0x807FFFFF"]
    MEM1_shadow_range [of "0x80800000" "0x800003" World_new "0xDEADBEEF" "0x807FFFFF" "0xAB"]
    mem1_roundtrip [of World_new "0x80000000" "0xDEADBEEF"]
  by (simp add: sized_new in_MEM1_def MEM1_SIZE_def)

text \<open>
  C10 as stated fails at the start of the range: a 4-byte access at the masked offset
  \<open>0x007FFFFD\<close> ends at index \<open>0x00800000\<close>, so that byte is written and read.
\<close>

theorem MEM1_shadow_range_counterexample:
  "mem1 (memory World_new) ! 0x800000 = 0 \<and>
   mem1 (memory (write32 0x807FFFFD 0xDEADBEEF World_new)) ! 0x800000 = 0xEF \<and>
   fst (read32 0x807FFFFD World_new) = 0 \<and>
   fst (read32 0x807FFFFD (poke_mem1 0x800000 0xAB World_new)) = 0xAB"
  by (simp add: World_new_def Memory_new_def read32_def write32_def in_MEM1_def MEM1_SIZE_def
      MEM2_SIZE_def load32_def store32_def poke_mem1_def Let_def)

end
